theory Spec2Isabelle
  imports Main "HOL-Library.Word" "HOL-Library.Sublist"
begin

unbundle bit_operations_syntax

section \<open>Python values\<close>

text \<open>
  Python \<open>str\<close> values are modelled as \<^typ>\<open>string\<close>: lists of 8-bit code points, that is
  the Latin-1 range of Python's strings. Python \<open>int\<close> is \<^typ>\<open>int\<close>. An exception raised by
  a library call is a value \<open>Inl e\<close> of a sum type.
\<close>

datatype py_exception = ValueError | IndexError | OtherException string

text \<open>
  The whitespace that \<open>int(s, 16)\<close> skips at both ends of \<open>s\<close>, on code points below
  256: the ASCII whitespace characters, NEL and the no-break space.
\<close>

definition int_space :: "char \<Rightarrow> bool" where
  "int_space c = (c \<in> {CHR 0x09, CHR 0x0A, CHR 0x0B, CHR 0x0C, CHR 0x0D, CHR 0x20,
                        CHR 0x85, CHR 0xA0})"

text \<open>The value of a digit in base 16, upper or lower case.\<close>

definition hex_value :: "char \<Rightarrow> nat option" where
  "hex_value c =
     (let n = (of_char c :: nat) in
      if 48 \<le> n \<and> n \<le> 57 then Some (n - 48)
      else if 97 \<le> n \<and> n \<le> 102 then Some (n - 87)
      else if 65 \<le> n \<and> n \<le> 70 then Some (n - 55)
      else None)"

text \<open>
  The digits of a number after its first digit: hexadecimal digits, where a single
  underscore may stand between two digits.
\<close>

fun int_digits :: "nat \<Rightarrow> string \<Rightarrow> nat option" where
  "int_digits acc [] = Some acc"
| "int_digits acc (c # cs) =
     (if c = CHR ''_'' then
        (case cs of
           [] \<Rightarrow> None
         | d # ds \<Rightarrow>
             (case hex_value d of
                None \<Rightarrow> None
              | Some v \<Rightarrow> int_digits (16 * acc + v) ds))
      else
        (case hex_value c of
           None \<Rightarrow> None
         | Some v \<Rightarrow> int_digits (16 * acc + v) cs))"

definition int_body :: "string \<Rightarrow> nat option" where
  "int_body s =
     (case s of
        [] \<Rightarrow> None
      | c # cs \<Rightarrow> (case hex_value c of None \<Rightarrow> None | Some v \<Rightarrow> int_digits v cs))"

text \<open>An optional \<open>0x\<close> or \<open>0X\<close> prefix, after which one underscore is allowed.\<close>

definition strip_prefix16 :: "string \<Rightarrow> string" where
  "strip_prefix16 s =
     (case s of
        c0 # c1 # r \<Rightarrow>
          if c0 = CHR ''0'' \<and> (c1 = CHR ''x'' \<or> c1 = CHR ''X'')
          then (case r of [] \<Rightarrow> r | u # r' \<Rightarrow> if u = CHR ''_'' then r' else r)
          else s
      | _ \<Rightarrow> s)"

definition split_sign :: "string \<Rightarrow> bool \<times> string" where
  "split_sign t =
     (case t of
        [] \<Rightarrow> (False, t)
      | c # r \<Rightarrow>
          if c = CHR ''-'' then (True, r)
          else if c = CHR ''+'' then (False, r)
          else (False, t))"

text \<open>
  Python's \<open>int(s, 16)\<close>: surrounding whitespace is dropped, then come an optional sign, an
  optional prefix and the digits; anything else raises \<open>ValueError\<close>.
\<close>

definition py_int16 :: "string \<Rightarrow> py_exception + int" where
  "py_int16 s =
     (let t = rev (dropWhile int_space (rev (dropWhile int_space s)));
          (neg, u) = split_sign t
      in case int_body (strip_prefix16 u) of
           None \<Rightarrow> Inl ValueError
         | Some n \<Rightarrow> Inr (if neg then - int n else int n))"

text \<open>
  Python's \<open>chr\<close>: \<open>ValueError\<close> outside \<open>range(0x110000)\<close>. The decoder below calls it on
  the exclusive-or of two numbers read from at most two characters each, which lies below
  256, so the result is an 8-bit code point.
\<close>

definition py_chr :: "int \<Rightarrow> py_exception + char" where
  "py_chr n = (if 0 \<le> n \<and> n < 0x110000 then Inr (char_of n) else Inl ValueError)"

section \<open>The obfuscation decoder (email\_decoder.py)\<close>

text \<open>
  The loop \<open>for i in range(2, len(encoded_string), 2)\<close> of \<open>decode_cloudflare_email\<close>, run on
  the string from index 2 on: \<open>hex_pair\<close> is the slice \<open>encoded_string[i:i + 2]\<close>, which holds
  one character when only one is left (slicing never raises).
\<close>

fun decode_pairs :: "int \<Rightarrow> string \<Rightarrow> py_exception + string" where
  "decode_pairs key [] = Inr []"
| "decode_pairs key (a # rest) =
     (let hex_pair = take 2 (a # rest) in
      case py_int16 hex_pair of
        Inl e \<Rightarrow> Inl e
      | Inr v \<Rightarrow>
          (case py_chr (v XOR key) of
             Inl e \<Rightarrow> Inl e
           | Inr c \<Rightarrow>
               (case decode_pairs key (drop 2 (a # rest)) of
                  Inl e \<Rightarrow> Inl e
                | Inr decoded_chars \<Rightarrow> Inr (c # decoded_chars))))"

definition decode_body :: "string \<Rightarrow> py_exception + string" where
  "decode_body encoded_string =
     (case py_int16 (take 2 encoded_string) of
        Inl e \<Rightarrow> Inl e
      | Inr key \<Rightarrow> decode_pairs key (drop 2 encoded_string))"

text \<open>
  The function itself: \<open>None\<close> on the empty string and on either caught exception; any
  other exception would leave the function (\<open>Inl\<close>).
\<close>

definition decode_cloudflare_email :: "string \<Rightarrow> py_exception + string option" where
  "decode_cloudflare_email encoded_string =
     (if encoded_string = [] then Inr None
      else
        (case decode_body encoded_string of
           Inl ValueError \<Rightarrow> Inr None
         | Inl IndexError \<Rightarrow> Inr None
         | Inl e \<Rightarrow> Inl e
         | Inr decoded \<Rightarrow> Inr (Some decoded)))"

subsection \<open>The encoding scheme, as the specification words it\<close>

text \<open>
  \<open>hex(k) + concat(hex(byte ^ k) for byte in plaintext)\<close>, each \<open>hex\<close> being two lower-case
  hexadecimal digits.
\<close>

definition hex_digit :: "nat \<Rightarrow> char" where
  "hex_digit d = ''0123456789abcdef'' ! d"

definition hex2 :: "8 word \<Rightarrow> string" where
  "hex2 b = [hex_digit (unat b div 16), hex_digit (unat b mod 16)]"

definition xor_encode :: "8 word \<Rightarrow> 8 word list \<Rightarrow> string" where
  "xor_encode k plaintext = hex2 k @ concat (map (\<lambda>byte. hex2 (byte XOR k)) plaintext)"

text \<open>The Python string whose code points are the given bytes.\<close>

definition str_of_bytes :: "8 word list \<Rightarrow> string" where
  "str_of_bytes bs = map (\<lambda>b. char_of (uint b)) bs"

section \<open>Regular expressions\<close>

text \<open>
  The patterns of the scrapers use literals, character classes, sequence, alternation,
  optional groups, greedy repetition of one character class and capturing groups. Python's
  \<open>re\<close> is a backtracking matcher: it tries the alternatives in the order written, the longer
  repetition first, and keeps the first way that lets the whole pattern match. \<open>run\<close> lists
  every way a pattern can match at the start of the input in that order of preference (each
  with the groups captured so far and the input left over), so that the match \<open>re\<close> reports is
  the head of the list.
\<close>

datatype regex =
    Eps
  | Chr char
  | Cls "char \<Rightarrow> bool"
  | Seq regex regex
  | Alt regex regex
  | Opt regex
  | Rep "char \<Rightarrow> bool" nat "nat option"
  | Group nat regex

type_synonym groups = "(nat \<times> string) list"

text \<open>ASCII and Latin-1 case folding, as \<open>str.lower\<close> does it on code points below 256.\<close>

definition lower_chr :: "char \<Rightarrow> char" where
  "lower_chr c =
     (let n = (of_char c :: nat) in
      if (65 \<le> n \<and> n \<le> 90) \<or> (192 \<le> n \<and> n \<le> 222 \<and> n \<noteq> 215) then char_of (n + 32) else c)"

definition lower :: "string \<Rightarrow> string" where
  "lower s = map lower_chr s"

fun run :: "bool \<Rightarrow> regex \<Rightarrow> groups \<times> string \<Rightarrow> (groups \<times> string) list" where
  "run ic Eps st = [st]"
| "run ic (Chr c) (g, s) =
     (case s of
        [] \<Rightarrow> []
      | x # xs \<Rightarrow> if (if ic then lower_chr x = lower_chr c else x = c) then [(g, xs)] else [])"
| "run ic (Cls P) (g, s) =
     (case s of [] \<Rightarrow> [] | x # xs \<Rightarrow> if P x then [(g, xs)] else [])"
| "run ic (Seq r1 r2) st = concat (map (run ic r2) (run ic r1 st))"
| "run ic (Alt r1 r2) st = run ic r1 st @ run ic r2 st"
| "run ic (Opt r) st = run ic r st @ [st]"
| "run ic (Rep P lo hi) (g, s) =
     (let avail = length (takeWhile P s);
          most = (case hi of None \<Rightarrow> avail | Some h \<Rightarrow> min h avail)
      in map (\<lambda>k. (g, drop k s)) (rev [lo ..< Suc most]))"
| "run ic (Group i r) (g, s) =
     map (\<lambda>(g', s'). ((i, take (length s - length s') s) # g', s')) (run ic r (g, s))"

text \<open>
  \<open>pattern.match(s)\<close>: the first way to match at position 0, with group 0 the text matched.
  \<open>pattern.search(s)\<close>: the same at the first position that has a match.
\<close>

definition re_match :: "bool \<Rightarrow> regex \<Rightarrow> string \<Rightarrow> groups option" where
  "re_match ic r s =
     (case run ic r ([], s) of
        [] \<Rightarrow> None
      | (g, s') # _ \<Rightarrow> Some ((0, take (length s - length s') s) # g))"

fun re_search :: "bool \<Rightarrow> regex \<Rightarrow> string \<Rightarrow> groups option" where
  "re_search ic r [] = re_match ic r []"
| "re_search ic r (c # cs) =
     (case re_match ic r (c # cs) of
        Some m \<Rightarrow> Some m
      | None \<Rightarrow> re_search ic r cs)"

text \<open>
  \<open>match.group(i)\<close>. Every group of the patterns below lies on every path through its
  pattern, so it has taken part in every match and the text is there.
\<close>

definition group :: "groups \<Rightarrow> nat \<Rightarrow> string" where
  "group m i = (case map_of m i of None \<Rightarrow> [] | Some t \<Rightarrow> t)"

text \<open>The groups that take part in every match of a pattern.\<close>

fun sure_groups :: "regex \<Rightarrow> nat set" where
  "sure_groups (Group i r) = insert i (sure_groups r)"
| "sure_groups (Seq r1 r2) = sure_groups r1 \<union> sure_groups r2"
| "sure_groups (Alt r1 r2) = sure_groups r1 \<inter> sure_groups r2"
| "sure_groups r = {}"

definition seqs :: "regex list \<Rightarrow> regex" where
  "seqs rs = foldr Seq rs Eps"

definition lit :: "string \<Rightarrow> regex" where
  "lit s = seqs (map Chr s)"

fun alts :: "regex list \<Rightarrow> regex" where
  "alts [] = Cls (\<lambda>c. False)"
| "alts [r] = r"
| "alts (r # rs) = Alt r (alts rs)"

text \<open>
  The classes \<open>\d\<close>, \<open>\s\<close> and \<open>.\<close> on code points below 256: the decimal digits there are
  the ASCII digits; the whitespace is ASCII whitespace, the four separators \<open>0x1c\<close> to \<open>0x1f\<close>,
  NEL and the no-break space; \<open>.\<close> is everything but the newline.
\<close>

definition re_digit :: "char \<Rightarrow> bool" where
  "re_digit c = (let n = (of_char c :: nat) in 48 \<le> n \<and> n \<le> 57)"

definition re_space :: "char \<Rightarrow> bool" where
  "re_space c = (c \<in> {CHR 0x09, CHR 0x0A, CHR 0x0B, CHR 0x0C, CHR 0x0D, CHR 0x1C, CHR 0x1D,
                       CHR 0x1E, CHR 0x1F, CHR 0x20, CHR 0x85, CHR 0xA0})"

definition re_dot :: "char \<Rightarrow> bool" where
  "re_dot c = (c \<noteq> CHR 0x0A)"

text \<open>
  \<open>int(s)\<close> on a string of ASCII digits, as the groups \<open>(\d+)\<close> capture them. The bound
  that recent Python versions put on the number of digits is not modelled.
\<close>

definition int_of_digits :: "string \<Rightarrow> int" where
  "int_of_digits s = foldl (\<lambda>acc c. 10 * acc + (int (of_char c) - 48)) 0 s"

section \<open>The parsed page\<close>

text \<open>
  \<open>BeautifulSoup(html, 'lxml')\<close> is the markup parser, a library outside the repository. A
  parsed page is modelled by what the scrapers ask of it: the markup it came from, the text
  of \<open>soup.get_text()\<close>, the \<open>href\<close> attribute of every \<open>a\<close> element in document order
  (\<open>None\<close> for an element without one), and \<open>element.get_text(strip=True)\<close> of every
  \<open>span\<close>, \<open>a\<close> or \<open>div\<close> element whose class matches
  \<open>badge|btn|theme|tag|label|category\<close>, in document order.
\<close>

record soup =
  markup :: string
  get_text :: string
  a_hrefs :: "string option list"
  badge_texts :: "string list"

text \<open>
  \<open>BaseScraper\<close>: the configured base URL, the transport \<open>fetch\<close> (\<open>None\<close> when the request
  failed) and the parser. \<open>parse\<close> stands for the call \<open>BeautifulSoup(html, 'lxml')\<close>: it
  gives the parsed page, or the exception with which the library rejects the markup.
\<close>

record scraper =
  base_url :: string
  fetch :: "string \<Rightarrow> string option"
  parse :: "string \<Rightarrow> py_exception + soup"

section \<open>Keeping first occurrences\<close>

text \<open>
  Both scrapers remove duplicates with the same loop over a list and a set of keys seen so
  far. What such a loop is meant to compute is stated once: \<open>first_occurrences\<close> keeps of
  every value of a list its first occurrence, in the order of the list, and \<open>first_by\<close>
  keeps the first element for every key that is not yet in \<open>seen\<close>.
\<close>

definition first_occurrences :: "'k list \<Rightarrow> 'k list" where
  "first_occurrences ks = rev (remdups (rev ks))"

fun first_by :: "('a \<Rightarrow> 'k) \<Rightarrow> 'k set \<Rightarrow> 'a list \<Rightarrow> 'a list" where
  "first_by f seen [] = []"
| "first_by f seen (x # xs) =
     (if f x \<in> seen then first_by f seen xs else x # first_by f (insert (f x) seen) xs)"

section \<open>Listing pages (listing\_scraper.py)\<close>

record EventLink =
  link_id :: int
  slug :: string
  url :: string

text \<open>\<open>EVENT_LINK_PATTERN = re.compile(r'/rommelmarkt/(\d+)/(.+)')\<close>\<close>

definition EVENT_LINK_PATTERN :: regex where
  "EVENT_LINK_PATTERN =
     seqs [lit ''/rommelmarkt/'', Group 1 (Rep re_digit 1 None), Chr CHR ''/'',
           Group 2 (Rep re_dot 1 None)]"

text \<open>
  The first loop of \<open>scrape_listing_page\<close>. \<open>soup.find_all('a', href=EVENT_LINK_PATTERN)\<close>
  keeps the \<open>a\<close> elements whose \<open>href\<close> the pattern finds a match in (the library filters
  with \<open>search\<close>); the loop body then applies \<open>EVENT_LINK_PATTERN.match\<close>, which matches at
  the start of the \<open>href\<close> only.
\<close>

definition find_all_event_links :: "soup \<Rightarrow> string list" where
  "find_all_event_links page =
     concat (map (\<lambda>a. case a of
                         None \<Rightarrow> []
                       | Some href \<Rightarrow>
                           (case re_search False EVENT_LINK_PATTERN href of
                              None \<Rightarrow> []
                            | Some _ \<Rightarrow> [href]))
                 (a_hrefs page))"

definition link_of_href :: "scraper \<Rightarrow> string \<Rightarrow> EventLink list" where
  "link_of_href self href =
     (case re_match False EVENT_LINK_PATTERN href of
        None \<Rightarrow> []
      | Some m \<Rightarrow>
          [\<lparr>link_id = int_of_digits (group m 1),
            slug = group m 2,
            url = (if take 1 href = ''/'' then base_url self @ href else href)\<rparr>])"

definition event_links :: "scraper \<Rightarrow> soup \<Rightarrow> EventLink list" where
  "event_links self page = concat (map (link_of_href self) (find_all_event_links page))"

text \<open>The second loop: \<open>seen_ids\<close> is the set, the result is \<open>unique_links\<close>.\<close>

fun unique_links :: "int set \<Rightarrow> EventLink list \<Rightarrow> EventLink list" where
  "unique_links seen_ids [] = []"
| "unique_links seen_ids (link # links) =
     (if link_id link \<notin> seen_ids
      then link # unique_links (insert (link_id link) seen_ids) links
      else unique_links seen_ids links)"

definition listing_url :: "scraper \<Rightarrow> string \<Rightarrow> string \<Rightarrow> string" where
  "listing_url self province month =
     base_url self @ ''/rommelmarkten-tijdens-'' @ month @ ''-in-'' @ province"

text \<open>
  \<open>scrape_listing_page\<close>. The parser is called outside any \<open>try\<close>: an exception of the
  parser leaves the function.
\<close>

definition scrape_listing_page ::
  "scraper \<Rightarrow> string \<Rightarrow> string \<Rightarrow> py_exception + EventLink list" where
  "scrape_listing_page self province month =
     (case fetch self (listing_url self province month) of
        None \<Rightarrow> Inr []
      | Some html \<Rightarrow>
          if html = [] then Inr []
          else
            (case parse self html of
               Inl e \<Rightarrow> Inl e
             | Inr page \<Rightarrow> Inr (unique_links {} (event_links self page))))"

subsection \<open>The links of a page, as the specification words them\<close>

text \<open>
  Discovery is specified over every hyperlink of the detail-page shape
  \<open>.../<numeric-id>/<slug>\<close>, site-relative or absolute. \<open>page_link_ids\<close> are the ids of
  these hyperlinks in document order: of every \<open>a\<close> element in whose \<open>href\<close> the pattern
  is found, the number the pattern captures there.
\<close>

definition page_link_ids :: "soup \<Rightarrow> int list" where
  "page_link_ids page =
     concat (map (\<lambda>href. case re_search False EVENT_LINK_PATTERN href of
                            None \<Rightarrow> []
                          | Some m \<Rightarrow> [int_of_digits (group m 1)])
                 (find_all_event_links page))"

section \<open>Detail pages (detail\_scraper.py)\<close>

subsection \<open>Dates\<close>

definition DUTCH_MONTHS :: "(string \<times> int) list" where
  "DUTCH_MONTHS =
     [(''januari'', 1), (''jan'', 1),
      (''februari'', 2), (''feb'', 2),
      (''maart'', 3), (''mrt'', 3), (''mar'', 3),
      (''april'', 4), (''apr'', 4),
      (''mei'', 5),
      (''juni'', 6), (''jun'', 6),
      (''juli'', 7), (''jul'', 7),
      (''augustus'', 8), (''aug'', 8),
      (''september'', 9), (''sep'', 9), (''sept'', 9),
      (''oktober'', 10), (''okt'', 10), (''oct'', 10),
      (''november'', 11), (''nov'', 11),
      (''december'', 12), (''dec'', 12)]"

text \<open>\<open>datetime.date(year, month, day)\<close>: \<open>ValueError\<close> unless the three form a date.\<close>

record date =
  date_year :: int
  date_month :: int
  date_day :: int

definition is_leap :: "int \<Rightarrow> bool" where
  "is_leap y = (y mod 4 = 0 \<and> (y mod 100 \<noteq> 0 \<or> y mod 400 = 0))"

definition days_in_month :: "int \<Rightarrow> int \<Rightarrow> int" where
  "days_in_month y m =
     (if m = 2 then (if is_leap y then 29 else 28)
      else if m = 4 \<or> m = 6 \<or> m = 9 \<or> m = 11 then 30
      else 31)"

definition py_date :: "int \<Rightarrow> int \<Rightarrow> int \<Rightarrow> py_exception + date" where
  "py_date y m d =
     (if 1 \<le> y \<and> y \<le> 9999 \<and> 1 \<le> m \<and> m \<le> 12 \<and> 1 \<le> d \<and> d \<le> days_in_month y m
      then Inr \<lparr>date_year = y, date_month = m, date_day = d\<rparr>
      else Inl ValueError)"

text \<open>
  The pattern of \<open>_extract_datum\<close>, compiled with \<open>re.IGNORECASE\<close>: a weekday token,
  \<open>\s+\<close>, \<open>(\d{1,2})\<close>, \<open>\s+\<close>, the month alternatives in the order written, \<open>\s+\<close>,
  \<open>(\d{4})\<close>.
\<close>

definition weekday_tokens :: regex where
  "weekday_tokens =
     alts (map lit [''ma'', ''di'', ''wo'', ''do'', ''vr'', ''za'', ''zo'', ''maandag'',
                    ''dinsdag'', ''woensdag'', ''donderdag'', ''vrijdag'', ''zaterdag'',
                    ''zondag''])"

definition month_tokens :: regex where
  "month_tokens =
     alts [Seq (lit ''jan'') (Opt (lit ''uari'')),
           Seq (lit ''feb'') (Opt (lit ''ruari'')),
           lit ''mrt'',
           Seq (lit ''mar'') (Opt (lit ''t'')),
           Seq (lit ''apr'') (Opt (lit ''il'')),
           lit ''mei'',
           Seq (lit ''jun'') (Opt (lit ''i'')),
           Seq (lit ''jul'') (Opt (lit ''i'')),
           Seq (lit ''aug'') (Opt (lit ''ustus'')),
           Seq (lit ''sep'') (Opt (Seq (lit ''t'') (Opt (lit ''ember'')))),
           Seq (lit ''okt'') (Opt (lit ''ober'')),
           lit ''oct'',
           Seq (lit ''nov'') (Opt (lit ''ember'')),
           Seq (lit ''dec'') (Opt (lit ''ember''))]"

definition date_pattern :: regex where
  "date_pattern =
     seqs [weekday_tokens, Rep re_space 1 None,
           Group 1 (Rep re_digit 1 (Some 2)), Rep re_space 1 None,
           Group 2 month_tokens, Rep re_space 1 None,
           Group 3 (Rep re_digit 4 (Some 4))]"

text \<open>
  \<open>_extract_datum\<close>. Only the call of \<open>date\<close> stands in the \<open>try\<close>, which catches
  \<open>ValueError\<close>. \<open>if month:\<close> is false for \<open>None\<close> and for 0.
\<close>

definition extract_datum :: "soup \<Rightarrow> py_exception + date option" where
  "extract_datum page =
     (let text = get_text page in
      case re_search True date_pattern text of
        None \<Rightarrow> Inr None
      | Some m \<Rightarrow>
          (let d = int_of_digits (group m 1);
               month_str = lower (group m 2);
               y = int_of_digits (group m 3)
           in case map_of DUTCH_MONTHS month_str of
                None \<Rightarrow> Inr None
              | Some mo \<Rightarrow>
                  if mo = 0 then Inr None
                  else
                    (case py_date y mo d of
                       Inl ValueError \<Rightarrow> Inr None
                     | Inl e \<Rightarrow> Inl e
                     | Inr dt \<Rightarrow> Inr (Some dt))))"

subsection \<open>Times\<close>

text \<open>
  \<open>(\d{1,2}[:.]\d{2})\s*[-\<dots>tot]+\s*(\d{1,2}[:.]\d{2})\<close>. The class between the two times
  holds the hyphen, the letters \<open>t\<close> and \<open>o\<close>, and the en dash, a code point above 255
  that no string of this model contains.
\<close>

definition clock_time :: regex where
  "clock_time =
     seqs [Rep re_digit 1 (Some 2), Cls (\<lambda>c. c = CHR '':'' \<or> c = CHR ''.''),
           Rep re_digit 2 (Some 2)]"

definition time_pattern :: regex where
  "time_pattern =
     seqs [Group 1 clock_time, Rep re_space 0 None,
           Rep (\<lambda>c. c = CHR ''-'' \<or> c = CHR ''t'' \<or> c = CHR ''o'') 1 None,
           Rep re_space 0 None, Group 2 clock_time]"

definition replace_chr :: "char \<Rightarrow> char \<Rightarrow> string \<Rightarrow> string" where
  "replace_chr old new s = map (\<lambda>c. if c = old then new else c) s"

definition extract_times :: "soup \<Rightarrow> string list" where
  "extract_times page =
     (let text = get_text page in
      case re_search False time_pattern text of
        None \<Rightarrow> []
      | Some m \<Rightarrow>
          (let start = replace_chr CHR ''.'' CHR '':'' (group m 1);
               end_t = replace_chr CHR ''.'' CHR '':'' (group m 2)
           in [start, end_t]))"

definition extract_start_tijd :: "soup \<Rightarrow> string option" where
  "extract_start_tijd page =
     (let times = extract_times page in
      case times of [] \<Rightarrow> None | t # _ \<Rightarrow> Some t)"

definition extract_eind_tijd :: "soup \<Rightarrow> string option" where
  "extract_eind_tijd page =
     (let times = extract_times page in
      if length times > 1 then Some (times ! 1) else None)"

subsection \<open>Types\<close>

text \<open>
  \<open>str.title\<close>: a cased character is upper-cased when the character before it is not
  cased, and lower-cased otherwise. Below 256 the cased characters are the ASCII and Latin-1
  letters, the two ordinal indicators and the micro sign. Three lower-case letters have an
  upper case outside this range (the sharp s, the y with diaeresis, the micro sign); the
  model leaves them as they are.
\<close>

definition is_cased :: "char \<Rightarrow> bool" where
  "is_cased c =
     (let n = (of_char c :: nat) in
      (65 \<le> n \<and> n \<le> 90) \<or> (97 \<le> n \<and> n \<le> 122) \<or> n = 170 \<or> n = 181 \<or> n = 186
      \<or> (192 \<le> n \<and> n \<noteq> 215 \<and> n \<noteq> 247))"

definition upper_chr :: "char \<Rightarrow> char" where
  "upper_chr c =
     (let n = (of_char c :: nat) in
      if (97 \<le> n \<and> n \<le> 122) \<or> (224 \<le> n \<and> n \<le> 254 \<and> n \<noteq> 247) then char_of (n - 32) else c)"

fun title_from :: "bool \<Rightarrow> string \<Rightarrow> string" where
  "title_from previous_is_cased [] = []"
| "title_from previous_is_cased (c # cs) =
     (if previous_is_cased then lower_chr c else upper_chr c) # title_from (is_cased c) cs"

definition title :: "string \<Rightarrow> string" where
  "title s = title_from False s"

definition known_types :: "string list" where
  "known_types =
     [''rommelmarkt'', ''binnenrommelmarkt'', ''buitenrommelmarkt'',
      ''antiekbeurs'', ''brocante beurs'', ''brocantebeurs'',
      ''kinderrommelmarkt'', ''tweedehandsmarkt'', ''vlooienmarkt'',
      ''verzamelbeurs'', ''curiosamarkt'', ''garageverkoop'']"

text \<open>The first loop of \<open>_extract_types\<close>; \<open>kt in text\<close> is the substring test.\<close>

definition badge_types :: "soup \<Rightarrow> string list" where
  "badge_types page =
     concat (map (\<lambda>element_text.
                    let text = lower element_text in
                    if List.member known_types text \<or> list_ex (\<lambda>kt. sublist kt text) known_types
                    then [title text] else [])
                 (badge_texts page))"

text \<open>The second loop, with \<open>seen\<close> the set of lower-cased entries kept so far.\<close>

fun unique_types :: "string set \<Rightarrow> string list \<Rightarrow> string list" where
  "unique_types seen [] = []"
| "unique_types seen (t # ts) =
     (if lower t \<notin> seen
      then t # unique_types (insert (lower t) seen) ts
      else unique_types seen ts)"

definition extract_types :: "soup \<Rightarrow> string list" where
  "extract_types page = unique_types {} (badge_types page)"

subsection \<open>The event record (models/event.py) and the page as a whole\<close>

text \<open>A \<open>Decimal\<close> built from a digit string: a coefficient and a power of ten.\<close>

datatype decimal = Decimal int int

record Event =
  event_id :: int
  naam :: string
  gemeente :: "string option"
  postcode :: "string option"
  adres :: "string option"
  locatie_naam :: "string option"
  datum :: "date option"
  start_tijd :: "string option"
  eind_tijd :: "string option"
  types :: "string list"
  inkom_prijs :: "decimal option"
  standplaats_prijs :: "decimal option"
  organisator :: "string option"
  telefoon :: "string option"
  email :: "string option"
  website :: "string option"
  beschrijving :: "string option"
  afbeelding_url :: "string option"
  source_url :: string

text \<open>
  The dictionary that \<open>_extract_location_info\<close> returns, and the field extractors of
  \<open>DetailScraper\<close> that are not modelled further: each is a function of the parsed page (the
  title fallback, of the URL) that returns its value or raises.
\<close>

record location_info =
  loc_gemeente :: "string option"
  loc_postcode :: "string option"
  loc_adres :: "string option"

record extractors =
  extract_location_info :: "soup \<Rightarrow> py_exception + location_info"
  extract_title :: "soup \<Rightarrow> py_exception + string"
  title_from_url :: "string \<Rightarrow> py_exception + string"
  extract_locatie_naam :: "soup \<Rightarrow> py_exception + string option"
  extract_price :: "soup \<Rightarrow> string list \<Rightarrow> py_exception + decimal option"
  extract_organisator :: "soup \<Rightarrow> py_exception + string option"
  extract_telefoon :: "soup \<Rightarrow> py_exception + string option"
  extract_email :: "soup \<Rightarrow> py_exception + string option"
  extract_website :: "soup \<Rightarrow> py_exception + string option"
  extract_beschrijving :: "soup \<Rightarrow> py_exception + string option"
  extract_afbeelding :: "soup \<Rightarrow> py_exception + string option"

text \<open>Sequencing of statements that may raise: the first exception ends the block.\<close>

definition bind_exc :: "py_exception + 'a \<Rightarrow> ('a \<Rightarrow> py_exception + 'b) \<Rightarrow> py_exception + 'b" where
  "bind_exc r f = (case r of Inl e \<Rightarrow> Inl e | Inr v \<Rightarrow> f v)"

definition extract_inkom_prijs :: "extractors \<Rightarrow> soup \<Rightarrow> py_exception + decimal option" where
  "extract_inkom_prijs X page =
     extract_price X page [''inkom'', ''toegang'', ''entree'', ''entrance'']"

definition extract_standplaats_prijs :: "extractors \<Rightarrow> soup \<Rightarrow> py_exception + decimal option" where
  "extract_standplaats_prijs X page =
     extract_price X page [''standplaats'', ''stand'', ''tafel'', ''kraam'']"

text \<open>
  The body of the \<open>try\<close> in \<open>scrape_detail_page\<close>: the location, the title with its
  fallback, then the arguments of \<open>Event(...)\<close> in the order written.
\<close>

definition extract_event :: "extractors \<Rightarrow> soup \<Rightarrow> string \<Rightarrow> int \<Rightarrow> py_exception + Event" where
  "extract_event X page u eid =
     bind_exc (extract_location_info X page) (\<lambda>location_info.
     bind_exc (extract_title X page) (\<lambda>naam0.
     bind_exc (if naam0 = ''Onbekend'' then title_from_url X u else Inr naam0) (\<lambda>naam1.
     bind_exc (extract_locatie_naam X page) (\<lambda>locatie.
     bind_exc (extract_datum page) (\<lambda>dat.
     bind_exc (extract_inkom_prijs X page) (\<lambda>inkom.
     bind_exc (extract_standplaats_prijs X page) (\<lambda>standplaats.
     bind_exc (extract_organisator X page) (\<lambda>org.
     bind_exc (extract_telefoon X page) (\<lambda>tel.
     bind_exc (extract_email X page) (\<lambda>mail.
     bind_exc (extract_website X page) (\<lambda>web.
     bind_exc (extract_beschrijving X page) (\<lambda>descr.
     bind_exc (extract_afbeelding X page) (\<lambda>img.
       Inr \<lparr>event_id = eid,
            naam = naam1,
            gemeente = loc_gemeente location_info,
            postcode = loc_postcode location_info,
            adres = loc_adres location_info,
            locatie_naam = locatie,
            datum = dat,
            start_tijd = extract_start_tijd page,
            eind_tijd = extract_eind_tijd page,
            types = extract_types page,
            inkom_prijs = inkom,
            standplaats_prijs = standplaats,
            organisator = org,
            telefoon = tel,
            email = mail,
            website = web,
            beschrijving = descr,
            afbeelding_url = img,
            source_url = u\<rparr>)))))))))))))"

text \<open>
  \<open>scrape_detail_page\<close>: \<open>None\<close> when the fetch failed or gave an empty page. The parser
  is called before the \<open>try\<close> begins, so an exception of the parser leaves the function
  (\<open>Inl\<close>). Anything raised inside the \<open>try\<close> is caught by \<open>except Exception\<close>, and the
  function returns \<open>None\<close>.
\<close>

definition scrape_detail_page ::
  "scraper \<Rightarrow> extractors \<Rightarrow> string \<Rightarrow> int \<Rightarrow> py_exception + Event option" where
  "scrape_detail_page self X u eid =
     (case fetch self u of
        None \<Rightarrow> Inr None
      | Some html \<Rightarrow>
          if html = [] then Inr None
          else
            (case parse self html of
               Inl e \<Rightarrow> Inl e
             | Inr page \<Rightarrow>
                 (case extract_event X page u eid of
                    Inl e \<Rightarrow> Inr None
                  | Inr event \<Rightarrow> Inr (Some event))))"

section \<open>The store (database.py)\<close>

text \<open>
  A row of the table \<open>events\<close> without its key: the eighteen data columns and the two
  timestamps. The price columns hold \<open>float(price)\<close>; the conversion to a float is a
  parameter \<open>float_of\<close> of the model. The table is a map from \<open>id\<close> to the row.
\<close>

type_synonym timestamp = nat

record 'f events_row =
  naam_col :: string
  gemeente_col :: "string option"
  postcode_col :: "string option"
  adres_col :: "string option"
  locatie_naam_col :: "string option"
  datum_col :: "string option"
  start_tijd_col :: "string option"
  eind_tijd_col :: "string option"
  types_col :: string
  inkom_prijs_col :: "'f option"
  standplaats_prijs_col :: "'f option"
  organisator_col :: "string option"
  telefoon_col :: "string option"
  email_col :: "string option"
  website_col :: "string option"
  beschrijving_col :: "string option"
  afbeelding_url_col :: "string option"
  source_url_col :: string
  first_scraped_at :: timestamp
  last_updated_at :: timestamp

type_synonym 'f events_table = "int \<Rightarrow> 'f events_row option"

text \<open>\<open>date.isoformat()\<close>: \<open>YYYY-MM-DD\<close>, zero-padded.\<close>

definition digit_chr :: "int \<Rightarrow> char" where
  "digit_chr n = char_of (48 + n mod 10)"

definition isoformat :: "date \<Rightarrow> string" where
  "isoformat d =
     (let y = date_year d; m = date_month d; dd = date_day d in
      [digit_chr (y div 1000), digit_chr (y div 100), digit_chr (y div 10), digit_chr y,
       CHR ''-'', digit_chr (m div 10), digit_chr m,
       CHR ''-'', digit_chr (dd div 10), digit_chr dd])"

text \<open>
  \<open>json.dumps\<close> of a list of strings: each string in double quotes, with the quote, the
  backslash and everything outside the printable ASCII range escaped, joined by a comma and
  a blank.
\<close>

definition json_escape :: "char \<Rightarrow> string" where
  "json_escape c =
     (let n = (of_char c :: nat) in
      if c = CHR 0x22 then [CHR 0x5C, CHR 0x22]
      else if c = CHR 0x5C then [CHR 0x5C, CHR 0x5C]
      else if c = CHR 0x0A then [CHR 0x5C, CHR ''n'']
      else if c = CHR 0x0D then [CHR 0x5C, CHR ''r'']
      else if c = CHR 0x09 then [CHR 0x5C, CHR ''t'']
      else if c = CHR 0x08 then [CHR 0x5C, CHR ''b'']
      else if c = CHR 0x0C then [CHR 0x5C, CHR ''f'']
      else if 32 \<le> n \<and> n \<le> 126 then [c]
      else [CHR 0x5C, CHR ''u'', CHR ''0'', CHR ''0'', hex_digit (n div 16), hex_digit (n mod 16)])"

definition json_string :: "string \<Rightarrow> string" where
  "json_string s = [CHR 0x22] @ concat (map json_escape s) @ [CHR 0x22]"

fun join :: "string \<Rightarrow> string list \<Rightarrow> string" where
  "join sep [] = []"
| "join sep [x] = x"
| "join sep (x # xs) = x @ sep @ join sep xs"

definition json_dumps :: "string list \<Rightarrow> string" where
  "json_dumps xs = ''['' @ join '', '' (map json_string xs) @ '']''"

text \<open>
  \<open>Event.to_db_tuple\<close>: the nineteen values of the \<open>INSERT\<close>, the \<open>id\<close> first.
\<close>

definition to_db_tuple ::
  "(decimal \<Rightarrow> 'f) \<Rightarrow> Event \<Rightarrow>
   int \<times> string \<times> string option \<times> string option \<times> string option \<times> string option \<times>
   string option \<times> string option \<times> string option \<times> string \<times> 'f option \<times> 'f option \<times>
   string option \<times> string option \<times> string option \<times> string option \<times> string option \<times>
   string option \<times> string" where
  "to_db_tuple float_of e =
     (event_id e,
      naam e,
      gemeente e,
      postcode e,
      adres e,
      locatie_naam e,
      (case datum e of None \<Rightarrow> None | Some d \<Rightarrow> Some (isoformat d)),
      start_tijd e,
      eind_tijd e,
      (if types e \<noteq> [] then json_dumps (types e) else ''[]''),
      (case inkom_prijs e of None \<Rightarrow> None | Some p \<Rightarrow> Some (float_of p)),
      (case standplaats_prijs e of None \<Rightarrow> None | Some p \<Rightarrow> Some (float_of p)),
      organisator e,
      telefoon e,
      email e,
      website e,
      beschrijving e,
      afbeelding_url e,
      source_url e)"

text \<open>The data columns of a row, in the order of the tuple.\<close>

definition row_values ::
  "'f events_row \<Rightarrow>
   string \<times> string option \<times> string option \<times> string option \<times> string option \<times>
   string option \<times> string option \<times> string option \<times> string \<times> 'f option \<times> 'f option \<times>
   string option \<times> string option \<times> string option \<times> string option \<times> string option \<times>
   string option \<times> string" where
  "row_values r =
     (naam_col r, gemeente_col r, postcode_col r, adres_col r, locatie_naam_col r,
      datum_col r, start_tijd_col r, eind_tijd_col r, types_col r, inkom_prijs_col r,
      standplaats_prijs_col r, organisator_col r, telefoon_col r, email_col r,
      website_col r, beschrijving_col r, afbeelding_url_col r, source_url_col r)"

definition event_exists :: "'f events_table \<Rightarrow> int \<Rightarrow> bool" where
  "event_exists table i = (table i \<noteq> None)"

text \<open>
  The \<open>INSERT\<close> of \<open>upsert_event\<close>: the columns named in the statement take the values of
  \<open>to_db_tuple\<close> in their order; the two timestamp columns are not named and take their
  default \<open>CURRENT_TIMESTAMP\<close>, here \<open>now\<close>.
\<close>

definition insert_row :: "(decimal \<Rightarrow> 'f) \<Rightarrow> timestamp \<Rightarrow> Event \<Rightarrow> 'f events_table \<Rightarrow> 'f events_table" where
  "insert_row float_of now e table =
     (case to_db_tuple float_of e of
        (i, v_naam, v_gemeente, v_postcode, v_adres, v_locatie_naam, v_datum, v_start_tijd,
         v_eind_tijd, v_types, v_inkom_prijs, v_standplaats_prijs, v_organisator, v_telefoon,
         v_email, v_website, v_beschrijving, v_afbeelding_url, v_source_url) \<Rightarrow>
          table(i \<mapsto>
            \<lparr>naam_col = v_naam, gemeente_col = v_gemeente, postcode_col = v_postcode,
             adres_col = v_adres, locatie_naam_col = v_locatie_naam, datum_col = v_datum,
             start_tijd_col = v_start_tijd, eind_tijd_col = v_eind_tijd, types_col = v_types,
             inkom_prijs_col = v_inkom_prijs, standplaats_prijs_col = v_standplaats_prijs,
             organisator_col = v_organisator, telefoon_col = v_telefoon, email_col = v_email,
             website_col = v_website, beschrijving_col = v_beschrijving,
             afbeelding_url_col = v_afbeelding_url, source_url_col = v_source_url,
             first_scraped_at = now, last_updated_at = now\<rparr>))"

text \<open>
  The \<open>UPDATE\<close>: the statement sets the eighteen data columns from the parameters written
  out in \<open>upsert_event\<close> and \<open>last_updated_at\<close> from \<open>CURRENT_TIMESTAMP\<close>, in the row
  \<open>WHERE id = ?\<close>.
\<close>

definition update_row :: "(decimal \<Rightarrow> 'f) \<Rightarrow> timestamp \<Rightarrow> Event \<Rightarrow> 'f events_table \<Rightarrow> 'f events_table" where
  "update_row float_of now e table =
     (case table (event_id e) of
        None \<Rightarrow> table
      | Some r \<Rightarrow>
          table(event_id e \<mapsto>
            r\<lparr>naam_col := naam e,
              gemeente_col := gemeente e,
              postcode_col := postcode e,
              adres_col := adres e,
              locatie_naam_col := locatie_naam e,
              datum_col := (case datum e of None \<Rightarrow> None | Some d \<Rightarrow> Some (isoformat d)),
              start_tijd_col := start_tijd e,
              eind_tijd_col := eind_tijd e,
              types_col := (if types e \<noteq> [] then json_dumps (types e) else ''[]''),
              inkom_prijs_col := (case inkom_prijs e of None \<Rightarrow> None | Some p \<Rightarrow> Some (float_of p)),
              standplaats_prijs_col :=
                (case standplaats_prijs e of None \<Rightarrow> None | Some p \<Rightarrow> Some (float_of p)),
              organisator_col := organisator e,
              telefoon_col := telefoon e,
              email_col := email e,
              website_col := website e,
              beschrijving_col := beschrijving e,
              afbeelding_url_col := afbeelding_url e,
              source_url_col := source_url e,
              last_updated_at := now\<rparr>))"

definition upsert_event :: "(decimal \<Rightarrow> 'f) \<Rightarrow> timestamp \<Rightarrow> 'f events_table \<Rightarrow> Event \<Rightarrow> 'f events_table" where
  "upsert_event float_of now table e =
     (let exists = event_exists table (event_id e) in
      if exists then update_row float_of now e table
      else insert_row float_of now e table)"

section \<open>The crawl (main.py)\<close>

text \<open>
  What the crawl does to the outside world is kept as a trace: each call of
  \<open>db.event_exists\<close>, each request of a detail page (the \<open>fetch\<close> that
  \<open>scrape_detail_page\<close> issues first), each request of a listing page, and each write of
  \<open>db.upsert_event\<close>. The clock of the store is a function of the trace so far.
\<close>

datatype effect =
    DbExists int
  | FetchListing string
  | FetchDetail int string
  | DbWrite int

record 'f crawl_state =
  db :: "'f events_table"
  effects :: "effect list"
  total_events :: nat
  new_events :: nat
  updated_events :: nat
  skipped_events :: nat
  failed_events :: nat

record 'f crawl_config =
  full_refresh :: bool
  listing_scraper :: scraper
  detail_scraper :: scraper
  detail_extractors :: extractors
  float_conv :: "decimal \<Rightarrow> 'f"
  clock :: "effect list \<Rightarrow> timestamp"

definition log_effect :: "effect \<Rightarrow> 'f crawl_state \<Rightarrow> 'f crawl_state" where
  "log_effect x s = s\<lparr>effects := effects s @ [x]\<rparr>"

text \<open>
  \<open>db.upsert_event(event)\<close> as the crawl sees it: the check inside \<open>upsert_event\<close>, then the
  write.
\<close>

definition db_upsert_event :: "'f crawl_config \<Rightarrow> Event \<Rightarrow> 'f crawl_state \<Rightarrow> 'f crawl_state" where
  "db_upsert_event cfg event s =
     (let s1 = log_effect (DbExists (event_id event)) s;
          now = clock cfg (effects s1)
      in log_effect (DbWrite (event_id event))
           (s1\<lparr>db := upsert_event (float_conv cfg) now (db s1) event\<rparr>))"

text \<open>
  The loops of \<open>main\<close> catch \<open>KeyboardInterrupt\<close> only. An exception that a scraper lets
  out ends the crawl; the result is then \<open>Inl\<close> of the exception and the state reached,
  otherwise \<open>Inr\<close> of the state.
\<close>

type_synonym 'f outcome = "(py_exception \<times> 'f crawl_state) + 'f crawl_state"

definition state_of :: "'f outcome \<Rightarrow> 'f crawl_state" where
  "state_of r = (case r of Inl (e, s) \<Rightarrow> s | Inr s \<Rightarrow> s)"

text \<open>
  The body of \<open>for link in event_links\<close>. The test
  \<open>not args.full_refresh and db.event_exists(link.id)\<close> asks the store only when
  \<open>full_refresh\<close> is off.
\<close>

definition process_link :: "'f crawl_config \<Rightarrow> EventLink \<Rightarrow> 'f crawl_state \<Rightarrow> 'f outcome" where
  "process_link cfg link s =
     (let s1 = s\<lparr>total_events := total_events s + 1\<rparr>;
          s2 = (if full_refresh cfg then s1 else log_effect (DbExists (link_id link)) s1)
      in if \<not> full_refresh cfg \<and> event_exists (db s1) (link_id link)
         then Inr (s2\<lparr>skipped_events := skipped_events s2 + 1\<rparr>)
         else
           (let s3 = log_effect (FetchDetail (link_id link) (url link)) s2 in
            case scrape_detail_page (detail_scraper cfg) (detail_extractors cfg)
                   (url link) (link_id link) of
              Inl e \<Rightarrow> Inl (e, s3)
            | Inr (Some event) \<Rightarrow>
                (let was_existing = event_exists (db s3) (link_id link);
                     s4 = log_effect (DbExists (link_id link)) s3;
                     s5 = db_upsert_event cfg event s4
                 in if was_existing
                    then Inr (s5\<lparr>updated_events := updated_events s5 + 1\<rparr>)
                    else Inr (s5\<lparr>new_events := new_events s5 + 1\<rparr>))
            | Inr None \<Rightarrow> Inr (s3\<lparr>failed_events := failed_events s3 + 1\<rparr>)))"

fun process_links :: "'f crawl_config \<Rightarrow> EventLink list \<Rightarrow> 'f crawl_state \<Rightarrow> 'f outcome" where
  "process_links cfg [] s = Inr s"
| "process_links cfg (link # links) s =
     (case process_link cfg link s of
        Inl r \<Rightarrow> Inl r
      | Inr s' \<Rightarrow> process_links cfg links s')"

text \<open>
  The body of \<open>for month in months\<close>: one listing page, and \<open>continue\<close> when it gave no
  links.
\<close>

definition scrape_month :: "'f crawl_config \<Rightarrow> string \<Rightarrow> string \<Rightarrow> 'f crawl_state \<Rightarrow> 'f outcome" where
  "scrape_month cfg province month s =
     (let s1 = log_effect (FetchListing (listing_url (listing_scraper cfg) province month)) s in
      case scrape_listing_page (listing_scraper cfg) province month of
        Inl e \<Rightarrow> Inl (e, s1)
      | Inr links \<Rightarrow> if links = [] then Inr s1 else process_links cfg links s1)"

fun scrape_months :: "'f crawl_config \<Rightarrow> string \<Rightarrow> string list \<Rightarrow> 'f crawl_state \<Rightarrow> 'f outcome" where
  "scrape_months cfg province [] s = Inr s"
| "scrape_months cfg province (month # months) s =
     (case scrape_month cfg province month s of
        Inl r \<Rightarrow> Inl r
      | Inr s' \<Rightarrow> scrape_months cfg province months s')"

fun crawl :: "'f crawl_config \<Rightarrow> string list \<Rightarrow> string list \<Rightarrow> 'f crawl_state \<Rightarrow> 'f outcome" where
  "crawl cfg [] months s = Inr s"
| "crawl cfg (province # provinces) months s =
     (case scrape_months cfg province months s of
        Inl r \<Rightarrow> Inl r
      | Inr s' \<Rightarrow> crawl cfg provinces months s')"

section \<open>Example pages and stores\<close>

text \<open>Concrete inputs on which the properties below are exercised.\<close>

definition page_of_links :: "string option list \<Rightarrow> soup" where
  "page_of_links hrefs = \<lparr>markup = ''<html></html>'', get_text = [], a_hrefs = hrefs, badge_texts = []\<rparr>"

definition page_of_text :: "string \<Rightarrow> soup" where
  "page_of_text t = \<lparr>markup = ''<html></html>'', get_text = t, a_hrefs = [], badge_texts = []\<rparr>"

definition page_of_badges :: "string list \<Rightarrow> soup" where
  "page_of_badges bs = \<lparr>markup = ''<html></html>'', get_text = [], a_hrefs = [], badge_texts = bs\<rparr>"

text \<open>A site every URL of which delivers the given page.\<close>

definition site_of_page :: "soup \<Rightarrow> scraper" where
  "site_of_page page =
     \<lparr>base_url = ''https://www.rommelmarkten.be'',
      fetch = (\<lambda>u. Some (markup page)),
      parse = (\<lambda>html. Inr page)\<rparr>"


text \<open>A listing page with three links to event 42 and, after them, one to event 7.\<close>

definition example_listing_page :: soup where
  "example_listing_page =
     page_of_links [Some ''/rommelmarkt/42/kerstmarkt'', Some ''/rommelmarkt/42/kerstmarkt'',
                    None, Some ''/rommelmarkt/42/kerstmarkt'',
                    Some ''/rommelmarkt/7/vlooienmarkt'']"

text \<open>
  A listing page with three links to event 42 and one to event 7, the first link to 42
  standing first and written as an absolute URL.
\<close>

definition mixed_listing_page :: soup where
  "mixed_listing_page =
     page_of_links [Some ''https://www.rommelmarkten.be/rommelmarkt/42/kerstmarkt'',
                    Some ''/rommelmarkt/7/vlooienmarkt'',
                    Some ''/rommelmarkt/42/kerstmarkt'',
                    Some ''/rommelmarkt/42/kerstmarkt'']"

text \<open>A listing page whose one link to event 42 is written as an absolute URL.\<close>

definition absolute_listing_page :: soup where
  "absolute_listing_page =
     page_of_links [Some ''https://www.rommelmarkten.be/rommelmarkt/42/kerstmarkt'']"

definition example_detail_page :: soup where
  "example_detail_page =
     \<lparr>markup = ''<html></html>'',
      get_text = ''Kerstmarkt za 7 feb 2026 van 9.00 tot 17:30'',
      a_hrefs = [],
      badge_texts = [''ROMMELMARKT'', ''Rommelmarkt'']\<rparr>"

definition example_extractors :: extractors where
  "example_extractors =
     \<lparr>extract_location_info =
        (\<lambda>page. Inr \<lparr>loc_gemeente = Some ''Temse'', loc_postcode = Some ''9140'', loc_adres = None\<rparr>),
      extract_title = (\<lambda>page. Inr ''Kerstmarkt''),
      title_from_url = (\<lambda>u. Inr ''Onbekend''),
      extract_locatie_naam = (\<lambda>page. Inr None),
      extract_price = (\<lambda>page keywords. Inr None),
      extract_organisator = (\<lambda>page. Inr None),
      extract_telefoon = (\<lambda>page. Inr None),
      extract_email = (\<lambda>page. Inr None),
      extract_website = (\<lambda>page. Inr None),
      extract_beschrijving = (\<lambda>page. Inr None),
      extract_afbeelding = (\<lambda>page. Inr None)\<rparr>"

text \<open>The same extractors, with an email extractor that raises.\<close>

definition failing_extractors :: extractors where
  "failing_extractors =
     example_extractors\<lparr>extract_email := (\<lambda>page. Inl (OtherException ''AttributeError''))\<rparr>"

definition example_event :: Event where
  "example_event =
     \<lparr>event_id = 42,
      naam = ''Kerstmarkt'',
      gemeente = Some ''Temse'',
      postcode = Some ''9140'',
      adres = None,
      locatie_naam = None,
      datum = Some \<lparr>date_year = 2026, date_month = 2, date_day = 7\<rparr>,
      start_tijd = Some ''9:00'',
      eind_tijd = Some ''17:30'',
      types = [''Rommelmarkt''],
      inkom_prijs = None,
      standplaats_prijs = None,
      organisator = None,
      telefoon = None,
      email = None,
      website = None,
      beschrijving = None,
      afbeelding_url = None,
      source_url = ''https://www.rommelmarkten.be/rommelmarkt/42/kerstmarkt''\<rparr>"

definition example_link :: EventLink where
  "example_link =
     \<lparr>link_id = 42,
      slug = ''kerstmarkt'',
      url = ''https://www.rommelmarkten.be/rommelmarkt/42/kerstmarkt''\<rparr>"

text \<open>A row stored at time 5 with other contents, and the table that holds it under 42.\<close>

definition example_row :: "decimal events_row" where
  "example_row =
     \<lparr>naam_col = ''Oude naam'', gemeente_col = Some ''Gent'', postcode_col = Some ''9000'',
      adres_col = Some ''Korenmarkt 1'', locatie_naam_col = Some ''Zaal'',
      datum_col = Some ''2025-01-01'', start_tijd_col = Some ''8:00'', eind_tijd_col = Some ''12:00'',
      types_col = ''[]'', inkom_prijs_col = Some (Decimal 450 (-2)), standplaats_prijs_col = None,
      organisator_col = Some ''Iemand'', telefoon_col = None, email_col = Some ''a@b.be'',
      website_col = None, beschrijving_col = None, afbeelding_url_col = None,
      source_url_col = ''https://www.rommelmarkten.be/rommelmarkt/42/oud'',
      first_scraped_at = 5, last_updated_at = 5\<rparr>"

definition example_table :: "decimal events_table" where
  "example_table = Map.empty(42 \<mapsto> example_row)"


definition example_config :: "bool \<Rightarrow> extractors \<Rightarrow> decimal crawl_config" where
  "example_config refresh X =
     \<lparr>full_refresh = refresh,
      listing_scraper = site_of_page (page_of_links []),
      detail_scraper = site_of_page example_detail_page,
      detail_extractors = X,
      float_conv = (\<lambda>d. d),
      clock = (\<lambda>trace. 100 + length trace)\<rparr>"

definition example_state :: "decimal events_table \<Rightarrow> decimal crawl_state" where
  "example_state table =
     \<lparr>db = table, effects = [], total_events = 0, new_events = 0, updated_events = 0,
      skipped_events = 0, failed_events = 0\<rparr>"

section \<open>Properties of the decoder\<close>

lemma hex_digit_cases:
  assumes "d < 16"
  shows "hex_value (hex_digit d) = Some d \<and> \<not> int_space (hex_digit d)
     \<and> hex_digit d \<noteq> CHR ''_'' \<and> hex_digit d \<noteq> CHR ''-'' \<and> hex_digit d \<noteq> CHR ''+''
     \<and> hex_digit d \<noteq> CHR ''x'' \<and> hex_digit d \<noteq> CHR ''X''"
proof -
  from assms have "d = 0 \<or> d = 1 \<or> d = 2 \<or> d = 3 \<or> d = 4 \<or> d = 5 \<or> d = 6 \<or> d = 7
      \<or> d = 8 \<or> d = 9 \<or> d = 10 \<or> d = 11 \<or> d = 12 \<or> d = 13 \<or> d = 14 \<or> d = 15"
    by arith
  then show ?thesis
    by (elim disjE) (simp_all add: hex_digit_def hex_value_def int_space_def)
qed

lemma py_int16_two_digits:
  assumes "a < 16" "b < 16"
  shows "py_int16 [hex_digit a, hex_digit b] = Inr (int (16 * a + b))"
  using hex_digit_cases [OF assms(1)] hex_digit_cases [OF assms(2)]
  by (simp add: py_int16_def split_sign_def strip_prefix16_def int_body_def)

lemma py_int16_hex2: "py_int16 (hex2 b) = Inr (uint b)"
proof -
  have "unat b < 256"
    using unsigned_less [of b] by simp
  then have "unat b div 16 < 16" and "unat b mod 16 < 16"
    by auto
  then have "py_int16 (hex2 b) = Inr (int (16 * (unat b div 16) + unat b mod 16))"
    unfolding hex2_def by (rule py_int16_two_digits)
  then show ?thesis by simp
qed

lemma py_chr_byte: "py_chr (uint (b :: 8 word)) = Inr (char_of (uint b))"
proof -
  have "uint b < 256"
    using unsigned_less [of b] by simp
  then show ?thesis by (simp add: py_chr_def)
qed

lemma decode_pairs_encoded:
  "decode_pairs (uint k) (concat (map (\<lambda>byte. hex2 (byte XOR k)) plaintext))
   = Inr (str_of_bytes plaintext)"
proof (induction plaintext)
  case Nil
  show ?case by (simp add: str_of_bytes_def)
next
  case (Cons b bs)
  have x: "uint (b XOR k) XOR uint k = uint b"
    by (simp add: uint_xor [symmetric] bit.xor_left_self xor.assoc)
  have h: "hex2 (b XOR k) = [hex_digit (unat (b XOR k) div 16), hex_digit (unat (b XOR k) mod 16)]"
    by (simp add: hex2_def)
  have p: "py_int16 [hex_digit (unat (b XOR k) div 16), hex_digit (unat (b XOR k) mod 16)]
           = Inr (uint (b XOR k))"
    using py_int16_hex2 [of "b XOR k"] by (simp add: hex2_def)
  show ?case
    using Cons.IH py_chr_byte [of b]
    by (simp add: h p x str_of_bytes_def)
qed

text \<open>
  C2. For every one-byte key \<open>k\<close> and every byte sequence \<open>plaintext\<close>, the decoder applied
  to \<open>hex(k)\<close> followed by \<open>hex(byte ^ k)\<close> for each byte returns the string whose code
  points are exactly the bytes of \<open>plaintext\<close>.
\<close>

theorem decode_inverts_xor_encode:
  "decode_cloudflare_email (xor_encode k plaintext) = Inr (Some (str_of_bytes plaintext))"
proof -
  have ne: "xor_encode k plaintext \<noteq> []"
    by (simp add: xor_encode_def hex2_def)
  have t: "take 2 (xor_encode k plaintext) = hex2 k"
    by (simp add: xor_encode_def hex2_def)
  have d: "drop 2 (xor_encode k plaintext) = concat (map (\<lambda>byte. hex2 (byte XOR k)) plaintext)"
    by (simp add: xor_encode_def hex2_def)
  show ?thesis
    by (simp add: decode_cloudflare_email_def decode_body_def ne t d py_int16_hex2
        decode_pairs_encoded)
qed

text \<open>The round trip on the key \<open>0x5a\<close> and the three bytes of \<open>a@b\<close>.\<close>

lemma decode_example: "decode_cloudflare_email ''5a3b1a38'' = Inr (Some ''a@b'')"
  by code_simp

text \<open>
  C3. The claim is that every malformed input (odd length, as \<open>abc\<close>, or a character that
  is no hexadecimal digit) makes the decoder return \<open>None\<close>. On \<open>abc\<close> the code reads the
  key \<open>0xab\<close>, then the slice \<open>encoded_string[2:4]\<close>, which is the one character \<open>c\<close> and a
  valid number, and returns the one-character string \<open>chr(0x0c ^ 0xab)\<close>.
\<close>

theorem decode_odd_length_returns_text:
  "decode_cloudflare_email ''abc'' = Inr (Some [CHR 0xA7])"
  by code_simp

text \<open>
  A sign is no hexadecimal digit, but \<open>int\<close> accepts it: \<open>+a\<close> is read as the key 10 and
  decodes to the empty string. A string such as \<open>zz\<close> does give \<open>None\<close>.
\<close>

lemma decode_signed_key: "decode_cloudflare_email ''+a'' = Inr (Some [])"
  by code_simp

lemma decode_non_hex: "decode_cloudflare_email ''zz'' = Inr None"
  by code_simp

section \<open>Properties of the duplicate removal\<close>

lemma remdups_snoc: "remdups (xs @ [k]) = filter (\<lambda>x. x \<noteq> k) (remdups xs) @ [k]"
  by (induction xs) auto

lemma first_occurrences_Cons:
  "first_occurrences (k # ks) = k # filter (\<lambda>x. x \<noteq> k) (first_occurrences ks)"
proof -
  have "remdups (rev ks @ [k]) = filter (\<lambda>x. x \<noteq> k) (remdups (rev ks)) @ [k]"
    by (rule remdups_snoc)
  then show ?thesis
    by (simp add: first_occurrences_def rev_filter)
qed

lemma first_by_keys:
  "map f (first_by f seen xs) = filter (\<lambda>k. k \<notin> seen) (first_occurrences (map f xs))"
proof (induction xs arbitrary: seen)
  case Nil
  show ?case by (simp add: first_occurrences_def)
next
  case (Cons x xs)
  show ?case
  proof (cases "f x \<in> seen")
    case True
    have "filter (\<lambda>k. k \<notin> seen) (filter (\<lambda>k. k \<noteq> f x) (first_occurrences (map f xs)))
          = filter (\<lambda>k. k \<notin> seen) (first_occurrences (map f xs))"
      using True by (auto intro: filter_cong)
    with True Cons.IH [of seen] show ?thesis
      by (simp add: first_occurrences_Cons)
  next
    case False
    have "filter (\<lambda>k. k \<notin> insert (f x) seen) (first_occurrences (map f xs))
          = filter (\<lambda>k. k \<notin> seen) (filter (\<lambda>k. k \<noteq> f x) (first_occurrences (map f xs)))"
      by (auto intro: filter_cong)
    with False Cons.IH [of "insert (f x) seen"] show ?thesis
      by (simp add: first_occurrences_Cons)
  qed
qed

lemma first_by_keys_fresh: "set (map f (first_by f seen xs)) \<inter> seen = {}"
  by (induction xs arbitrary: seen) auto

lemma first_by_distinct: "distinct (map f (first_by f seen xs))"
proof (induction xs arbitrary: seen)
  case Nil
  show ?case by simp
next
  case (Cons x xs)
  show ?case
  proof (cases "f x \<in> seen")
    case True
    with Cons.IH show ?thesis by simp
  next
    case False
    have "f x \<notin> set (map f (first_by f (insert (f x) seen) xs))"
      using first_by_keys_fresh [of f "insert (f x) seen" xs] by auto
    with False Cons.IH [of "insert (f x) seen"] show ?thesis by simp
  qed
qed

lemma first_by_subseq: "subseq (first_by f seen xs) xs"
  by (induction xs arbitrary: seen) auto

lemma first_by_is_first:
  "y \<in> set (first_by f seen xs) \<Longrightarrow> find (\<lambda>c. f c = f y) xs = Some y"
proof (induction xs arbitrary: seen)
  case Nil
  then show ?case by simp
next
  case (Cons x xs)
  show ?case
  proof (cases "f x \<in> seen")
    case True
    with Cons.prems have y: "y \<in> set (first_by f seen xs)" by simp
    then have "f y \<in> set (map f (first_by f seen xs))" by simp
    then have "f y \<notin> seen"
      using first_by_keys_fresh [of f seen xs] by blast
    with True have "f x \<noteq> f y" by auto
    with Cons.IH [OF y] show ?thesis by simp
  next
    case False
    with Cons.prems have "y = x \<or> y \<in> set (first_by f (insert (f x) seen) xs)" by simp
    then show ?thesis
    proof
      assume "y = x"
      then show ?thesis by simp
    next
      assume y: "y \<in> set (first_by f (insert (f x) seen) xs)"
      then have "f y \<in> set (map f (first_by f (insert (f x) seen) xs))" by simp
      then have "f y \<notin> insert (f x) seen"
        using first_by_keys_fresh [of f "insert (f x) seen" xs] by blast
      then have "f x \<noteq> f y" by auto
      with Cons.IH [OF y] show ?thesis by simp
    qed
  qed
qed

lemma first_by_subset: "set (first_by f seen xs) \<subseteq> set xs"
  by (induction xs arbitrary: seen) auto

lemma unique_links_first_by: "unique_links seen_ids links = first_by link_id seen_ids links"
  by (induction links arbitrary: seen_ids) auto

lemma unique_types_first_by: "unique_types seen ts = first_by lower seen ts"
  by (induction ts arbitrary: seen) auto

section \<open>Properties of the matcher\<close>

text \<open>
  A match never loses a group it has captured, and it has captured every group that lies on
  every path through the pattern. The groups read by the scrapers are of this kind, so
  \<open>group\<close> always finds their text.
\<close>

lemma run_captures:
  "(g', s') \<in> set (run ic r (g, s)) \<Longrightarrow>
   fst ` set g \<subseteq> fst ` set g' \<and> sure_groups r \<subseteq> fst ` set g'"
proof (induction r arbitrary: g s g' s')
  case Eps
  then show ?case by simp
next
  case (Chr c)
  then have "g' = g" by (cases s) (simp_all split: if_splits)
  then show ?case by simp
next
  case (Cls P)
  then have "g' = g" by (cases s) (simp_all split: if_splits)
  then show ?case by simp
next
  case (Seq r1 r2)
  from Seq.prems obtain g1 s1 where a: "(g1, s1) \<in> set (run ic r1 (g, s))"
    and b: "(g', s') \<in> set (run ic r2 (g1, s1))"
    by auto
  from Seq.IH(1) [OF a] Seq.IH(2) [OF b] show ?case
    by (simp add: subset_iff)
next
  case (Alt r1 r2)
  from Alt.prems have "(g', s') \<in> set (run ic r1 (g, s)) \<or> (g', s') \<in> set (run ic r2 (g, s))"
    by simp
  then show ?case
  proof
    assume "(g', s') \<in> set (run ic r1 (g, s))"
    from Alt.IH(1) [OF this] show ?thesis by (simp add: subset_iff)
  next
    assume "(g', s') \<in> set (run ic r2 (g, s))"
    from Alt.IH(2) [OF this] show ?thesis by (simp add: subset_iff)
  qed
next
  case (Opt r)
  from Opt.prems have "(g', s') \<in> set (run ic r (g, s)) \<or> (g', s') = (g, s)"
    by auto
  then show ?case
  proof
    assume "(g', s') \<in> set (run ic r (g, s))"
    from Opt.IH [OF this] show ?thesis by simp
  next
    assume "(g', s') = (g, s)"
    then show ?thesis by simp
  qed
next
  case (Rep P lo hi)
  then have "g' = g" by (auto simp: Let_def)
  then show ?case by simp
next
  case (Group i r)
  from Group.prems obtain g1 where a: "(g1, s') \<in> set (run ic r (g, s))"
    and b: "g' = (i, take (length s - length s') s) # g1"
    by auto
  from Group.IH [OF a] b show ?case
    by (simp add: subset_iff)
qed

lemma re_match_captures:
  assumes m: "re_match ic r s = Some m" and i: "i \<in> sure_groups r"
  shows "map_of m i \<noteq> None"
proof -
  from m obtain g s' rest where r: "run ic r ([], s) = (g, s') # rest"
    and e: "m = (0, take (length s - length s') s) # g"
    by (auto simp: re_match_def split: list.splits)
  from r have "(g, s') \<in> set (run ic r ([], s))" by simp
  from run_captures [OF this] i have "i \<in> fst ` set g" by blast
  then have "map_of g i \<noteq> None" by (simp add: map_of_eq_None_iff)
  with e show ?thesis by simp
qed

lemma re_search_captures:
  "re_search ic r s = Some m \<Longrightarrow> i \<in> sure_groups r \<Longrightarrow> map_of m i \<noteq> None"
proof (induction s)
  case Nil
  then show ?case by (simp add: re_match_captures)
next
  case (Cons c cs)
  show ?case
  proof (cases "re_match ic r (c # cs)")
    case None
    with Cons show ?thesis by simp
  next
    case (Some m')
    with Cons.prems have "m' = m" by simp
    with Some Cons.prems(2) show ?thesis by (simp add: re_match_captures)
  qed
qed

lemma pattern_groups:
  "1 \<in> sure_groups time_pattern \<and> 2 \<in> sure_groups time_pattern
   \<and> 1 \<in> sure_groups date_pattern \<and> 2 \<in> sure_groups date_pattern
   \<and> 3 \<in> sure_groups date_pattern
   \<and> 1 \<in> sure_groups EVENT_LINK_PATTERN \<and> 2 \<in> sure_groups EVENT_LINK_PATTERN"
  by (simp add: time_pattern_def date_pattern_def EVENT_LINK_PATTERN_def seqs_def)

section \<open>Properties of the listing scraper\<close>

text \<open>
  The second loop of \<open>scrape_listing_page\<close> does what it is written for: of the links that
  reach it, it keeps the first of every id, in their order.
\<close>

lemma unique_links_keeps_first_occurrences:
  "distinct (map link_id (unique_links {} links))
   \<and> map link_id (unique_links {} links) = first_occurrences (map link_id links)
   \<and> subseq (unique_links {} links) links
   \<and> (\<forall>l \<in> set (unique_links {} links).
         find (\<lambda>c. link_id c = link_id l) links = Some l)"
  using first_by_distinct [of link_id "{}" links] first_by_keys [of link_id "{}" links]
    first_by_subseq [of link_id "{}" links] first_by_is_first [of _ link_id "{}" links]
  by (auto simp: unique_links_first_by)

lemma scrape_listing_page_parsed:
  "fetch self (listing_url self province month) = Some html \<Longrightarrow> html \<noteq> [] \<Longrightarrow>
   parse self html = Inr page \<Longrightarrow>
   scrape_listing_page self province month = Inr (unique_links {} (event_links self page))"
  by (simp add: scrape_listing_page_def)

text \<open>
  On a page whose links are all site-relative, three to 42 and then one to 7, the two
  candidates 42 and 7 are returned.
\<close>

lemma listing_example_ids:
  "scrape_listing_page (site_of_page example_listing_page) ''oost-vlaanderen'' ''februari''
   = Inr [\<lparr>link_id = 42, slug = ''kerstmarkt'',
            url = ''https://www.rommelmarkten.be/rommelmarkt/42/kerstmarkt''\<rparr>,
          \<lparr>link_id = 7, slug = ''vlooienmarkt'',
            url = ''https://www.rommelmarkten.be/rommelmarkt/7/vlooienmarkt''\<rparr>]"
  by code_simp

text \<open>
  A link is made only of an \<open>href\<close> that begins with a slash, so the branch
  \<open>full_url = href\<close> of the source is never taken, and the URL of every candidate is the
  base URL followed by the \<open>href\<close>.
\<close>

lemma link_of_href_relative_only:
  "take 1 href \<noteq> ''/'' \<Longrightarrow> link_of_href self href = []"
  by (cases href)
    (simp_all add: link_of_href_def re_match_def EVENT_LINK_PATTERN_def seqs_def lit_def)

lemma link_of_href_url:
  "l \<in> set (link_of_href self href) \<Longrightarrow> url l = base_url self @ href"
  using link_of_href_relative_only [of href self]
  by (auto simp: link_of_href_def split: option.splits if_splits)

text \<open>
  C6. The claim is that the output holds each event id of the page once, in the order of
  first occurrence, so that a page with three links to 42, one of them first, and one link
  to 7 gives the ids 42 and 7 in that order. On such a page whose first link to 42 is an
  absolute URL, the hyperlinks of the detail-page shape have the ids 42, 7, 42, 42, with
  first occurrences 42, 7; the code drops the absolute link before it removes duplicates
  and returns the candidates 7 and 42, in that order.
\<close>

theorem listing_order_broken_by_absolute_href:
  "page_link_ids mixed_listing_page = [42, 7, 42, 42]
   \<and> first_occurrences (page_link_ids mixed_listing_page) = [42, 7]
   \<and> scrape_listing_page (site_of_page mixed_listing_page) ''oost-vlaanderen'' ''februari''
     = Inr [\<lparr>link_id = 7, slug = ''vlooienmarkt'',
              url = ''https://www.rommelmarkten.be/rommelmarkt/7/vlooienmarkt''\<rparr>,
            \<lparr>link_id = 42, slug = ''kerstmarkt'',
              url = ''https://www.rommelmarkten.be/rommelmarkt/42/kerstmarkt''\<rparr>]"
  by code_simp

text \<open>
  C7. The claim is that a hyperlink of the detail-page shape gives a candidate whether its
  \<open>href\<close> is site-relative or an absolute URL. On a page whose one link is the absolute URL
  of event 42, the filter of \<open>find_all\<close> keeps the link, but \<open>EVENT_LINK_PATTERN.match\<close>
  finds nothing at the start of the \<open>href\<close> and no candidate is produced.
\<close>

theorem listing_drops_absolute_href:
  "find_all_event_links absolute_listing_page
     = [''https://www.rommelmarkten.be/rommelmarkt/42/kerstmarkt'']
   \<and> scrape_listing_page (site_of_page absolute_listing_page) ''oost-vlaanderen'' ''februari''
     = Inr []"
  by code_simp

section \<open>Properties of the date extractor\<close>

text \<open>The two examples of the specification.\<close>

lemma extract_datum_example:
  "extract_datum (page_of_text ''za 7 feb 2026'')
   = Inr (Some \<lparr>date_year = 2026, date_month = 2, date_day = 7\<rparr>)"
  by code_simp

lemma extract_datum_invalid_date:
  "extract_datum (page_of_text ''zo 30 feb 2026'') = Inr None"
  by code_simp

text \<open>No exception leaves \<open>_extract_datum\<close>: the only one raised inside is caught.\<close>

lemma py_date_raises_ValueError_only: "py_date y m d = Inl e \<Longrightarrow> e = ValueError"
  by (simp add: py_date_def split: if_splits)

lemma extract_datum_never_raises: "\<exists>r. extract_datum page = Inr r"
proof -
  have "\<exists>r. (case py_date y mo d of
               Inl ValueError \<Rightarrow> Inr None
             | Inl e \<Rightarrow> Inl e
             | Inr dt \<Rightarrow> Inr (Some dt)) = (Inr r :: py_exception + date option)" for y mo d
    by (cases "py_date y mo d") (auto dest: py_date_raises_ValueError_only)
  then show ?thesis
    by (simp add: extract_datum_def Let_def split: option.split)
qed

text \<open>The abbreviation of March is read.\<close>

lemma extract_datum_mrt:
  "extract_datum (page_of_text ''zaterdag 7 mrt 2026'')
   = Inr (Some \<lparr>date_year = 2026, date_month = 3, date_day = 7\<rparr>)"
  by code_simp

text \<open>
  C8. The claim is that a text with a weekday, a day, a month token of the synonym table
  and a year gives the date. \<open>maart\<close> is a key of \<open>DUTCH_MONTHS\<close>, but the pattern spells
  the month \<open>mar(?:t)?\<close>, which matches \<open>mar\<close> and \<open>mart\<close> and not \<open>maart\<close>: on
  \<open>zaterdag 7 maart 2026\<close> the pattern finds nothing and no date is returned.
\<close>

theorem extract_datum_misses_maart:
  "map_of DUTCH_MONTHS ''maart'' = Some 3
   \<and> extract_datum (page_of_text ''zaterdag 7 maart 2026'') = Inr None"
  by code_simp

section \<open>Properties of the type extractor\<close>

lemma badge_types_title:
  "set (badge_types page) \<subseteq> (\<lambda>b. title (lower b)) ` set (badge_texts page)"
  by (auto simp: badge_types_def Let_def split: if_splits)

text \<open>
  C9, as stated: no two entries of the types list are equal ignoring case, and each entry
  keeps the casing the type had on the page. The second part fails: a badge \<open>ROMMELMARKT\<close>
  gives the entry \<open>Rommelmarkt\<close>, which is not the text of any badge of the page.
\<close>

theorem types_keep_title_case_not_page_case:
  "extract_types (page_of_badges [''ROMMELMARKT'']) = [''Rommelmarkt'']
   \<and> ''Rommelmarkt'' \<notin> set (badge_texts (page_of_badges [''ROMMELMARKT'']))"
  by code_simp

text \<open>
  C9, amended. No two entries of the types list are equal ignoring case; the entries are
  the badge types of the page, each lower-cased form once, in the order of first occurrence;
  each entry is the first badge type with its lower-cased form, and it is the title-cased
  form of the lower-cased text of a badge of the page.
\<close>

theorem types_unique_ignoring_case:
  "distinct (map lower (extract_types page))
   \<and> map lower (extract_types page) = first_occurrences (map lower (badge_types page))
   \<and> subseq (extract_types page) (badge_types page)
   \<and> (\<forall>t \<in> set (extract_types page).
         find (\<lambda>c. lower c = lower t) (badge_types page) = Some t
         \<and> (\<exists>b \<in> set (badge_texts page). t = title (lower b)))"
proof -
  have s: "set (extract_types page) \<subseteq> set (badge_types page)"
    by (simp add: extract_types_def unique_types_first_by first_by_subset)
  show ?thesis
    using first_by_distinct [of lower "{}" "badge_types page"]
      first_by_keys [of lower "{}" "badge_types page"]
      first_by_subseq [of lower "{}" "badge_types page"]
      first_by_is_first [of _ lower "{}" "badge_types page"]
      s badge_types_title [of page]
    by (auto simp: extract_types_def unique_types_first_by)
qed

lemma types_example:
  "extract_types (page_of_badges [''ROMMELMARKT'', ''Grote Vlooienmarkt'', ''rommelmarkt''])
   = [''Rommelmarkt'', ''Grote Vlooienmarkt'']"
  by code_simp

theorem types_unique_ignoring_case_witness:
  "''Rommelmarkt'' \<in> set (extract_types
       (page_of_badges [''ROMMELMARKT'', ''Grote Vlooienmarkt'', ''rommelmarkt'']))
   \<and> distinct (map lower (extract_types
       (page_of_badges [''ROMMELMARKT'', ''Grote Vlooienmarkt'', ''rommelmarkt''])))
   \<and> find (\<lambda>c. lower c = lower ''Rommelmarkt'')
        (badge_types (page_of_badges [''ROMMELMARKT'', ''Grote Vlooienmarkt'', ''rommelmarkt'']))
       = Some ''Rommelmarkt''"
proof -
  have m: "''Rommelmarkt'' \<in> set (extract_types
       (page_of_badges [''ROMMELMARKT'', ''Grote Vlooienmarkt'', ''rommelmarkt'']))"
    by (simp add: types_example)
  from m types_unique_ignoring_case
    [of "page_of_badges [''ROMMELMARKT'', ''Grote Vlooienmarkt'', ''rommelmarkt'']"]
  show ?thesis by blast
qed

section \<open>Properties of the time extractor\<close>

lemma bind_exc_Inr: "(bind_exc r f = Inr v) = (\<exists>a. r = Inr a \<and> f a = Inr v)"
  by (cases r) (simp_all add: bind_exc_def)

lemma extract_times_shape:
  "extract_times page = [] \<or> (\<exists>a b. extract_times page = [a, b])"
  by (simp add: extract_times_def Let_def split: option.split)

lemma extract_event_times:
  "extract_event X page u eid = Inr ev \<Longrightarrow>
   start_tijd ev = extract_start_tijd page \<and> eind_tijd ev = extract_eind_tijd page"
  by (auto simp: extract_event_def bind_exc_Inr)

lemma scrape_detail_page_example:
  "scrape_detail_page (site_of_page example_detail_page) example_extractors
     ''https://www.rommelmarkten.be/rommelmarkt/42/kerstmarkt'' 42 = Inr (Some example_event)"
  by code_simp

text \<open>
  C10. For every page the start time is absent exactly when the end time is absent, and so
  it is in every event that \<open>scrape_detail_page\<close> returns.
\<close>

theorem times_start_iff_end:
  "(extract_start_tijd page = None) = (extract_eind_tijd page = None)
   \<and> (scrape_detail_page self X u eid = Inr (Some ev) \<longrightarrow>
        (start_tijd ev = None) = (eind_tijd ev = None))"
proof -
  have a: "(extract_start_tijd pg = None) = (extract_eind_tijd pg = None)" for pg
    using extract_times_shape [of pg]
    by (auto simp: extract_start_tijd_def extract_eind_tijd_def)
  show ?thesis
    using a extract_event_times [of X _ u eid ev]
    by (auto simp: scrape_detail_page_def split: option.splits if_splits sum.splits)
qed

theorem times_start_iff_end_witness:
  "scrape_detail_page (site_of_page example_detail_page) example_extractors
     ''https://www.rommelmarkten.be/rommelmarkt/42/kerstmarkt'' 42 = Inr (Some example_event)
   \<and> (start_tijd example_event = None) = (eind_tijd example_event = None)
   \<and> start_tijd example_event = Some ''9:00''"
proof -
  have s: "start_tijd example_event = Some ''9:00''"
    by (simp add: example_event_def)
  from s scrape_detail_page_example
    times_start_iff_end [of example_detail_page "site_of_page example_detail_page"
      example_extractors "''https://www.rommelmarkten.be/rommelmarkt/42/kerstmarkt''" 42
      example_event]
  show ?thesis by blast
qed

section \<open>Properties of the store\<close>

lemma update_row_at:
  "table (event_id e) = Some old \<Longrightarrow>
   \<exists>r. update_row float_of now e table (event_id e) = Some r
     \<and> row_values r = snd (to_db_tuple float_of e)
     \<and> first_scraped_at r = first_scraped_at old \<and> last_updated_at r = now"
  by (simp add: update_row_def row_values_def to_db_tuple_def)

lemma insert_row_at:
  "\<exists>r. insert_row float_of now e table (event_id e) = Some r
     \<and> row_values r = snd (to_db_tuple float_of e)
     \<and> first_scraped_at r = now \<and> last_updated_at r = now"
  by (simp add: insert_row_def row_values_def to_db_tuple_def)

lemma upsert_event_other:
  "j \<noteq> event_id e \<Longrightarrow> upsert_event float_of now table e j = table j"
  by (simp add: upsert_event_def update_row_def insert_row_def to_db_tuple_def Let_def
      split: option.split)

text \<open>
  C4. When a row with the id of the event exists, \<open>upsert_event\<close> leaves its
  \<open>first_scraped_at\<close> as it was, sets \<open>last_updated_at\<close> to the current time and replaces
  every data column by the value computed from the new event (the values \<open>to_db_tuple\<close>
  gives after the id). When no such row exists, the new row has these values and both
  timestamps are the current time. No other row changes.
\<close>

theorem upsert_replaces_fields_keeps_first_seen:
  "(table (event_id e) = Some old \<longrightarrow>
      map_option row_values (upsert_event float_of now table e (event_id e))
        = Some (snd (to_db_tuple float_of e))
      \<and> map_option first_scraped_at (upsert_event float_of now table e (event_id e))
        = Some (first_scraped_at old)
      \<and> map_option last_updated_at (upsert_event float_of now table e (event_id e)) = Some now)
   \<and> (table (event_id e) = None \<longrightarrow>
      map_option row_values (upsert_event float_of now table e (event_id e))
        = Some (snd (to_db_tuple float_of e))
      \<and> map_option first_scraped_at (upsert_event float_of now table e (event_id e)) = Some now
      \<and> map_option last_updated_at (upsert_event float_of now table e (event_id e)) = Some now)
   \<and> (\<forall>j. j \<noteq> event_id e \<longrightarrow> upsert_event float_of now table e j = table j)"
proof -
  have a: "upsert_event float_of now table e = update_row float_of now e table"
    if "table (event_id e) = Some old"
    using that by (simp add: upsert_event_def event_exists_def)
  have b: "upsert_event float_of now table e = insert_row float_of now e table"
    if "table (event_id e) = None"
    using that by (simp add: upsert_event_def event_exists_def)
  show ?thesis
    using a b update_row_at [of table e old float_of now] insert_row_at [of float_of now e table]
      upsert_event_other [of _ e float_of now table]
    by auto
qed

theorem upsert_replaces_fields_keeps_first_seen_witness:
  "example_table (event_id example_event) = Some example_row
   \<and> map_option first_scraped_at
        (upsert_event (\<lambda>d. d) 100 example_table example_event (event_id example_event)) = Some 5
   \<and> map_option last_updated_at
        (upsert_event (\<lambda>d. d) 100 example_table example_event (event_id example_event)) = Some 100
   \<and> map_option row_values
        (upsert_event (\<lambda>d. d) 100 example_table example_event (event_id example_event))
       = Some (snd (to_db_tuple (\<lambda>d. d) example_event))
   \<and> (Map.empty :: decimal events_table) (event_id example_event) = None
   \<and> map_option first_scraped_at
        (upsert_event (\<lambda>d. d) 100 Map.empty example_event (event_id example_event)) = Some 100
   \<and> map_option last_updated_at
        (upsert_event (\<lambda>d. d) 100 Map.empty example_event (event_id example_event)) = Some 100"
proof -
  have h: "example_table (event_id example_event) = Some example_row"
    by (simp add: example_table_def example_event_def)
  have f: "first_scraped_at example_row = 5"
    by (simp add: example_row_def)
  have n: "(Map.empty :: decimal events_table) (event_id example_event) = None"
    by simp
  from h f n
    upsert_replaces_fields_keeps_first_seen [of example_table example_event example_row
      "\<lambda>d. d" 100]
    upsert_replaces_fields_keeps_first_seen [of "Map.empty :: decimal events_table"
      example_event example_row "\<lambda>d. d" 100]
  show ?thesis by simp
qed

section \<open>Properties of the page scraper and the crawl\<close>

text \<open>
  An event that extraction returns is complete: every extractor returned, and the fields
  are the values they returned.
\<close>

lemma extract_event_complete:
  "extract_event X page u eid = Inr ev \<Longrightarrow>
     event_id ev = eid \<and> source_url ev = u
     \<and> extract_location_info X page
         = Inr \<lparr>loc_gemeente = gemeente ev, loc_postcode = postcode ev, loc_adres = adres ev\<rparr>
     \<and> ((extract_title X page = Inr (naam ev) \<and> naam ev \<noteq> ''Onbekend'')
          \<or> (extract_title X page = Inr ''Onbekend'' \<and> title_from_url X u = Inr (naam ev)))
     \<and> extract_locatie_naam X page = Inr (locatie_naam ev)
     \<and> extract_datum page = Inr (datum ev)
     \<and> start_tijd ev = extract_start_tijd page
     \<and> eind_tijd ev = extract_eind_tijd page
     \<and> types ev = extract_types page
     \<and> extract_inkom_prijs X page = Inr (inkom_prijs ev)
     \<and> extract_standplaats_prijs X page = Inr (standplaats_prijs ev)
     \<and> extract_organisator X page = Inr (organisator ev)
     \<and> extract_telefoon X page = Inr (telefoon ev)
     \<and> extract_email X page = Inr (email ev)
     \<and> extract_website X page = Inr (website ev)
     \<and> extract_beschrijving X page = Inr (beschrijving ev)
     \<and> extract_afbeelding X page = Inr (afbeelding_url ev)"
  by (clarsimp simp: extract_event_def bind_exc_Inr) (simp split: if_splits)

lemma scrape_detail_page_id:
  "scrape_detail_page self X u eid = Inr (Some ev) \<Longrightarrow> event_id ev = eid \<and> source_url ev = u"
  using extract_event_complete [of X _ u eid ev]
  by (auto simp: scrape_detail_page_def split: option.splits if_splits sum.splits)

text \<open>
  C1. In incremental mode, a candidate whose id is in the store when it is considered
  changes nothing in the store; the only thing done for it is the existence check (no
  request of its detail page, no write), and it is counted as skipped. In incremental mode
  the existence check is the first thing done for any candidate, before a request.
\<close>

theorem incremental_skips_existing:
  "(\<not> full_refresh cfg \<and> event_exists (db s) (link_id link) \<longrightarrow>
      process_link cfg link s = Inr (state_of (process_link cfg link s))
      \<and> db (state_of (process_link cfg link s)) = db s
      \<and> effects (state_of (process_link cfg link s)) = effects s @ [DbExists (link_id link)]
      \<and> skipped_events (state_of (process_link cfg link s)) = skipped_events s + 1
      \<and> total_events (state_of (process_link cfg link s)) = total_events s + 1
      \<and> new_events (state_of (process_link cfg link s)) = new_events s
      \<and> updated_events (state_of (process_link cfg link s)) = updated_events s
      \<and> failed_events (state_of (process_link cfg link s)) = failed_events s)
   \<and> (\<not> full_refresh cfg \<longrightarrow>
      (\<exists>rest. effects (state_of (process_link cfg link s))
               = effects s @ DbExists (link_id link) # rest))"
  by (auto simp: process_link_def log_effect_def db_upsert_event_def state_of_def Let_def
      split: option.split sum.split)

theorem incremental_skips_existing_witness:
  "\<not> full_refresh (example_config False example_extractors)
   \<and> event_exists (db (example_state example_table)) (link_id example_link)
   \<and> process_link (example_config False example_extractors) example_link
        (example_state example_table)
      = Inr (state_of (process_link (example_config False example_extractors) example_link
               (example_state example_table)))
   \<and> db (state_of (process_link (example_config False example_extractors) example_link
           (example_state example_table))) = example_table
   \<and> effects (state_of (process_link (example_config False example_extractors) example_link
           (example_state example_table))) = [DbExists 42]
   \<and> skipped_events (state_of (process_link (example_config False example_extractors)
           example_link (example_state example_table))) = 1"
proof -
  have f: "\<not> full_refresh (example_config False example_extractors)"
    by (simp add: example_config_def)
  have x: "event_exists (db (example_state example_table)) (link_id example_link)"
    by (simp add: example_state_def example_table_def example_link_def event_exists_def)
  have s: "db (example_state example_table) = example_table
           \<and> effects (example_state example_table) = []
           \<and> skipped_events (example_state example_table) = 0
           \<and> link_id example_link = 42"
    by (simp add: example_state_def example_link_def)
  from f x s
    incremental_skips_existing [of "example_config False example_extractors"
      "example_state example_table" example_link]
  show ?thesis by simp
qed

text \<open>
  Over a whole list of candidates, an incremental crawl leaves every row as it is that was
  in the store before.
\<close>

lemma process_link_preserves_existing:
  assumes "\<not> full_refresh cfg" "db s i = Some r"
  shows "db (state_of (process_link cfg link s)) i = Some r"
proof (cases "event_exists (db s) (link_id link)")
  case True
  with assms show ?thesis
    by (simp add: process_link_def log_effect_def state_of_def)
next
  case False
  with assms have ne: "i \<noteq> link_id link"
    by (auto simp: event_exists_def)
  show ?thesis
  proof (cases "scrape_detail_page (detail_scraper cfg) (detail_extractors cfg)
                  (url link) (link_id link)")
    case (Inl e)
    with assms False show ?thesis
      by (simp add: process_link_def log_effect_def state_of_def)
  next
    case (Inr result)
    show ?thesis
    proof (cases result)
      case None
      with Inr assms False show ?thesis
        by (simp add: process_link_def log_effect_def state_of_def)
    next
      case (Some ev)
      with Inr have "event_id ev = link_id link"
        by (simp add: scrape_detail_page_id)
      with ne have "upsert_event (float_conv cfg) t (db s) ev i = db s i" for t
        by (simp add: upsert_event_other)
      with Inr Some assms False show ?thesis
        by (simp add: process_link_def log_effect_def db_upsert_event_def state_of_def Let_def)
    qed
  qed
qed

lemma process_links_preserves_existing:
  "\<not> full_refresh cfg \<Longrightarrow> db s i = Some r \<Longrightarrow>
   db (state_of (process_links cfg links s)) i = Some r"
proof (induction links arbitrary: s)
  case Nil
  then show ?case by (simp add: state_of_def)
next
  case (Cons link links)
  from Cons.prems have p: "db (state_of (process_link cfg link s)) i = Some r"
    by (rule process_link_preserves_existing)
  show ?case
  proof (cases "process_link cfg link s")
    case (Inl x)
    with p show ?thesis by simp
  next
    case (Inr s')
    with p have "db s' i = Some r" by (simp add: state_of_def)
    with Cons.IH [OF Cons.prems(1) this] Inr show ?thesis by simp
  qed
qed

text \<open>
  What is raised inside the \<open>try\<close> of \<open>scrape_detail_page\<close> is caught: on a page that the
  parser accepted, an exception of the extraction gives \<open>None\<close>, and an event is returned
  only when the whole extraction succeeded.
\<close>

lemma extraction_exception_gives_None:
  "(fetch self u = Some html \<and> parse self html = Inr page
      \<and> extract_event X page u eid = Inl e \<longrightarrow>
      scrape_detail_page self X u eid = Inr None)
   \<and> (scrape_detail_page self X u eid = Inr (Some ev) \<longrightarrow>
        (\<exists>html page. fetch self u = Some html \<and> html \<noteq> [] \<and> parse self html = Inr page
           \<and> extract_event X page u eid = Inr ev))"
  by (auto simp: scrape_detail_page_def split: option.splits if_splits sum.splits)

text \<open>
  Whenever \<open>scrape_detail_page\<close> does not return an event, because it returned \<open>None\<close> or
  because an exception left it, the crawl leaves the store as it was and makes no write; it
  counts no new or updated event, and it counts a returned \<open>None\<close> as a failed candidate.
\<close>

lemma failed_scrape_never_reaches_store:
  "scrape_detail_page (detail_scraper cfg) (detail_extractors cfg) (url link) (link_id link)
     = Inl e \<or>
   scrape_detail_page (detail_scraper cfg) (detail_extractors cfg) (url link) (link_id link)
     = Inr None \<Longrightarrow>
   db (state_of (process_link cfg link s)) = db s
   \<and> (\<exists>added. effects (state_of (process_link cfg link s)) = effects s @ added
         \<and> (\<forall>i. DbWrite i \<notin> set added))
   \<and> new_events (state_of (process_link cfg link s)) = new_events s
   \<and> updated_events (state_of (process_link cfg link s)) = updated_events s"
  by (auto simp: process_link_def log_effect_def state_of_def Let_def)

lemma failed_scrape_counted:
  "scrape_detail_page (detail_scraper cfg) (detail_extractors cfg) (url link) (link_id link)
     = Inr None \<Longrightarrow>
   full_refresh cfg \<or> \<not> event_exists (db s) (link_id link) \<Longrightarrow>
   \<exists>s'. process_link cfg link s = Inr s' \<and> failed_events s' = failed_events s + 1"
  by (auto simp: process_link_def log_effect_def Let_def)

lemma failing_extractors_example:
  "scrape_detail_page (site_of_page example_detail_page) failing_extractors
     (url example_link) 42 = Inr None"
  by code_simp


end
